theory Spec2Isabelle
  imports Complex_Main
begin

section \<open>The anomaly pipeline of the RNSE backend\<close>

text \<open>
  The repository holds the React client and the project documents. The documents quote
  the part of \<^verbatim>\<open>backend/main.py\<close> that turns an uploaded CSV into stored anomaly
  flags (Integration Guide, "Algorithm Integration Points" 1 to 4). The definitions below
  follow those excerpts statement by statement.
\<close>

subsection \<open>Python floats\<close>

text \<open>
  A finite float is represented by the real number it denotes; the three special values
  that \<^verbatim>\<open>float()\<close> and \<^verbatim>\<open>json.loads\<close> also produce are kept apart. The pipeline
  only compares floats and divides by the literal \<^verbatim>\<open>1.0\<close>, and both are exact on
  floats, so no rounding is involved in what follows. A decimal literal such as
  \<^verbatim>\<open>0.3\<close> stands for the float it is read as, in the program text and in a
  log line alike.
\<close>

datatype pyfloat = Finite real | PosInf | NegInf | NaN

text \<open>\<^verbatim>\<open>a > b\<close> on floats: false as soon as one side is NaN.\<close>

fun float_gt :: "pyfloat \<Rightarrow> pyfloat \<Rightarrow> bool" where
  "float_gt NaN b = False"
| "float_gt a NaN = False"
| "float_gt (Finite x) (Finite y) = (y < x)"
| "float_gt (Finite x) PosInf = False"
| "float_gt (Finite x) NegInf = True"
| "float_gt PosInf PosInf = False"
| "float_gt PosInf b = True"
| "float_gt NegInf b = False"

definition float_lt :: "pyfloat \<Rightarrow> pyfloat \<Rightarrow> bool" where
  "float_lt a b = float_gt b a"

text \<open>
  The builtins \<^verbatim>\<open>max(a, b)\<close> and \<^verbatim>\<open>min(a, b)\<close> keep the first argument and
  replace it by the second only when the second compares strictly greater (smaller).
\<close>

definition py_max :: "pyfloat \<Rightarrow> pyfloat \<Rightarrow> pyfloat" where
  "py_max a b = (if float_gt b a then b else a)"

definition py_min :: "pyfloat \<Rightarrow> pyfloat \<Rightarrow> pyfloat" where
  "py_min a b = (if float_lt b a then b else a)"

subsection \<open>Log lines of the scorer\<close>

text \<open>
  What \<^verbatim>\<open>json.loads\<close> returns: \<^verbatim>\<open>None\<close>, a bool, an int, a float, a string, a
  list or a dict. A dict is kept as the list of its items (keys distinct, as in a dict).
\<close>

datatype json =
    JNull
  | JBool bool
  | JInt int
  | JFloat pyfloat
  | JStr string
  | JArr "json list"
  | JObj "(string \<times> json) list"

text \<open>
  An element of \<^verbatim>\<open>result["lines"]\<close> is represented by the outcome of
  \<^verbatim>\<open>json.loads(line_bytes.decode("utf-8"))\<close>: \<open>None\<close> when the decoding or the
  parser raises, \<open>Some\<close> of the parsed value otherwise.
\<close>

type_synonym line_bytes = "json option"

text \<open>\<^verbatim>\<open>line.get(k, d)\<close>: an AttributeError (\<open>None\<close>) unless \<open>line\<close> is a dict.\<close>

fun dict_get :: "json \<Rightarrow> string \<Rightarrow> json \<Rightarrow> json option" where
  "dict_get (JObj kvs) k d =
     (case map_of kvs k of None \<Rightarrow> Some d | Some v \<Rightarrow> Some v)"
| "dict_get other k d = None"

text \<open>
  The largest magnitude an int may have to convert to a float: from \<open>2^1024 - 2^970\<close> on
  the conversion raises OverflowError.
\<close>

definition float_int_limit :: int where
  "float_int_limit = 2 ^ 1024 - 2 ^ 970"

text \<open>
  \<^verbatim>\<open>divergence / 1.0\<close>. A float is divided exactly; an int (a bool is an int) is
  converted first, which fails on a huge int; every other value raises TypeError. The
  conversion of an int rounds beyond \<open>2^53\<close>; the model keeps the exact value, which lies
  on the same side of every float in \<open>[0, 1]\<close> as the rounded one.
\<close>

fun truediv_one :: "json \<Rightarrow> pyfloat option" where
  "truediv_one (JFloat d) = Some d"
| "truediv_one (JInt n) =
     (if \<bar>n\<bar> < float_int_limit then Some (Finite (of_int n)) else None)"
| "truediv_one (JBool b) = Some (Finite (if b then 1 else 0))"
| "truediv_one other = None"

text \<open>
  The body of the \<^verbatim>\<open>try\<close> up to the assignment of \<open>confidence\<close>; \<open>None\<close> is the
  exception that the bare \<^verbatim>\<open>except: pass\<close> swallows.
  \<^verbatim>\<open>
      line = json.loads(line_bytes.decode("utf-8"))
      divergence = line.get("D", 0.0)
      confidence = min(1.0, max(0.0, divergence / 1.0))
  \<close>
\<close>

definition confidence :: "line_bytes \<Rightarrow> pyfloat option" where
  "confidence line_bytes =
     (case line_bytes of
        None \<Rightarrow> None
      | Some line \<Rightarrow>
          (case dict_get line ''D'' (JFloat (Finite 0)) of
             None \<Rightarrow> None
           | Some divergence \<Rightarrow>
               (case truediv_one divergence of
                  None \<Rightarrow> None
                | Some r \<Rightarrow> Some (py_min (Finite 1) (py_max (Finite 0) r)))))"

text \<open>
  The architecture document sketches the same step without the lower bound:
  \<^verbatim>\<open>confidence = min(1.0, divergence / 1.0)\<close>, applied to the quotient.
\<close>

definition architecture_confidence :: "pyfloat \<Rightarrow> pyfloat" where
  "architecture_confidence r = py_min (Finite 1) r"

subsection \<open>Anomaly extraction\<close>

text \<open>The two lists the loop appends to, always in pairs.\<close>

record extraction =
  anomaly_indices :: "nat list"
  confidence_scores :: "pyfloat list"

text \<open>
  One iteration of
  \<^verbatim>\<open>
  for i, line_bytes in enumerate(result["lines"]):
      try:
          ...
          if confidence > 0.3:
              anomaly_indices.append(i)
              confidence_scores.append(confidence)
      except:
          pass  # Skip malformed lines
  \<close>
  with the threshold as a parameter (the guide's "Anomaly Threshold" customisation point
  compares against a variable \<open>threshold\<close>).
\<close>

definition extract_step :: "pyfloat \<Rightarrow> nat \<times> line_bytes \<Rightarrow> extraction \<Rightarrow> extraction" where
  "extract_step threshold il st =
     (case confidence (snd il) of
        None \<Rightarrow> st
      | Some c \<Rightarrow>
          if float_gt c threshold
          then st\<lparr>anomaly_indices := anomaly_indices st @ [fst il],
                  confidence_scores := confidence_scores st @ [c]\<rparr>
          else st)"

definition extract_loop :: "pyfloat \<Rightarrow> line_bytes list \<Rightarrow> extraction \<Rightarrow> extraction" where
  "extract_loop threshold lns st = fold (extract_step threshold) (enumerate 0 lns) st"

text \<open>
  The whole block: \<^verbatim>\<open>anomaly_indices = []\<close> and \<^verbatim>\<open>confidence_scores = []\<close>, then
  the loop. It is a transformer of the two variables, whatever they held before.
\<close>

definition extract_block :: "pyfloat \<Rightarrow> line_bytes list \<Rightarrow> extraction \<Rightarrow> extraction" where
  "extract_block threshold lns st =
     extract_loop threshold lns (st\<lparr>anomaly_indices := [], confidence_scores := []\<rparr>)"

definition Extract :: "line_bytes list \<Rightarrow> pyfloat \<Rightarrow> extraction" where
  "Extract lns threshold =
     extract_block threshold lns \<lparr>anomaly_indices = [], confidence_scores = []\<rparr>"

text \<open>The threshold of the backend, the literal \<^verbatim>\<open>0.3\<close>.\<close>

definition default_threshold :: pyfloat where
  "default_threshold = Finite (3 / 10)"

subsection \<open>Decoding the upload\<close>

text \<open>
  The model starts from \<^verbatim>\<open>rows = list(reader)\<close>, the rows the \<^verbatim>\<open>csv\<close> module has
  split. A field is kept as what \<^verbatim>\<open>float()\<close> makes of it: \<open>Num x\<close> when
  \<^verbatim>\<open>float(field)\<close> returns \<open>x\<close>, \<open>Txt s\<close> for a text \<open>s\<close> on which it raises
  ValueError.
\<close>

datatype field = Num pyfloat | Txt string

type_synonym row = "field list"

text \<open>
  The exceptions that leave the upload handler: the ValueError of \<^verbatim>\<open>float()\<close>, an
  \<^verbatim>\<open>HTTPException(status_code, detail)\<close>, and the lookup failure of the record store.
\<close>

datatype error = ValueError | HTTPException nat string | NotFound

abbreviation InsufficientData :: error where
  "InsufficientData \<equiv> HTTPException 400 ''Need at least 10 data points''"

fun float_py :: "field \<Rightarrow> error + pyfloat" where
  "float_py (Num x) = Inr x"
| "float_py (Txt s) = Inl ValueError"

text \<open>
  \<^verbatim>\<open>
  for row in rows[1:]:  # Skip header
      if len(row) > 1:
          values.append(float(row[1]))
  \<close>
  The second argument is the list \<open>values\<close> built so far.
\<close>

fun collect_values :: "row list \<Rightarrow> pyfloat list \<Rightarrow> error + pyfloat list" where
  "collect_values [] values = Inr values"
| "collect_values (row # rest) values =
     (if length row > 1
      then (case float_py (row ! 1) of
              Inl e \<Rightarrow> Inl e
            | Inr v \<Rightarrow> collect_values rest (values @ [v]))
      else collect_values rest values)"

text \<open>
  \<^verbatim>\<open>
  values = []
  for row in rows[1:]: ...
  if len(values) < 10:
      raise HTTPException(status_code=400, detail="Need at least 10 data points")
  \<close>
\<close>

definition Decode :: "row list \<Rightarrow> error + pyfloat list" where
  "Decode rows =
     (case collect_values (drop 1 rows) [] of
        Inl e \<Rightarrow> Inl e
      | Inr values \<Rightarrow> if length values < 10 then Inl InsufficientData else Inr values)"

subsection \<open>The scorer\<close>

text \<open>
  \<^verbatim>\<open>rnse_core.py\<close> is not part of the repository: \<^verbatim>\<open>rnse_run\<close> is a parameter of
  the pipeline, a function of the seed, the number of ticks and the parameters, returning
  the documented dict. What the handler does in the mock mode of the import fallback
  (\<^verbatim>\<open>rnse_run = None\<close>) is not shown by the documents and is left out.
\<close>

record RNSEParams =
  tau :: real
  q :: int
  alpha :: "real option"

record rnse_result =
  beta :: real
  var_tail :: real
  digest :: string
  roots :: "string list"
  lines :: "line_bytes list"

type_synonym scorer = "int \<Rightarrow> nat \<Rightarrow> RNSEParams \<Rightarrow> rnse_result"

definition seed64 :: int where
  "seed64 = 0x5EEDBEEFCAFE1234"

definition params :: RNSEParams where
  "params = \<lparr>tau = 25 / 100, q = 4, alpha = None\<rparr>"

subsection \<open>The results table and the upload handler\<close>

text \<open>
  A row of the \<^verbatim>\<open>results\<close> table: \<open>id\<close> (here \<open>rid\<close>), \<open>user_id\<close>,
  \<open>filename\<close>, \<open>anomaly_indices\<close>, \<open>confidence_scores\<close>, \<open>original_data\<close> and
  \<open>uploaded_at\<close>.
\<close>

record result_row = extraction +
  rid :: nat
  user_id :: nat
  filename :: string
  original_data :: "pyfloat list"
  uploaded_at :: nat

type_synonym results_table = "result_row list"

text \<open>The primary key of a new row: one more than the largest key in the table.\<close>

definition next_id :: "results_table \<Rightarrow> nat" where
  "next_id tbl = Suc (fold max (map rid tbl) 0)"

text \<open>
  \<^verbatim>\<open>
  INSERT INTO results (user_id, filename, anomaly_indices, confidence_scores, original_data)
  VALUES (?, ?, ?, ?, ?)
  \<close>
  The key and the timestamp are filled in by the table.
\<close>

definition insert_result ::
    "nat \<Rightarrow> string \<Rightarrow> extraction \<Rightarrow> pyfloat list \<Rightarrow> nat \<Rightarrow> results_table \<Rightarrow> nat \<times> results_table" where
  "insert_result uid fname ex values now tbl =
     (let new_id = next_id tbl
      in (new_id,
          tbl @ [\<lparr>anomaly_indices = anomaly_indices ex,
                  confidence_scores = confidence_scores ex,
                  rid = new_id, user_id = uid, filename = fname,
                  original_data = values, uploaded_at = now\<rparr>]))"

text \<open>The JSON answer of \<^verbatim>\<open>POST /api/upload\<close>.\<close>

record upload_response = extraction +
  result_id :: nat
  response_filename :: string
  anomaly_count :: nat

text \<open>
  The handler of \<^verbatim>\<open>POST /api/upload\<close>: parse and validate, call the scorer with
  \<^verbatim>\<open>T=len(values)\<close>, extract the flags, store, answer. An exception leaves the
  table as it was.
\<close>

definition upload_csv ::
    "scorer \<Rightarrow> nat \<Rightarrow> string \<Rightarrow> row list \<Rightarrow> nat \<Rightarrow> results_table
      \<Rightarrow> (error + upload_response) \<times> results_table" where
  "upload_csv rnse_run uid fname rows now tbl =
     (case Decode rows of
        Inl e \<Rightarrow> (Inl e, tbl)
      | Inr values \<Rightarrow>
          (let result = rnse_run seed64 (length values) params;
               ex = Extract (lines result) default_threshold;
               (new_id, tbl') = insert_result uid fname ex values now tbl
           in (Inr \<lparr>anomaly_indices = anomaly_indices ex,
                     confidence_scores = confidence_scores ex,
                     result_id = new_id, response_filename = fname,
                     anomaly_count = length (anomaly_indices ex)\<rparr>,
               tbl')))"

subsection \<open>Download: encoding a stored row, and the lookup by owner\<close>

text \<open>
  Modelled from the spec: the handler of \<^verbatim>\<open>GET /api/results/{result_id}/download\<close>
  is not among the sources (only its caller \<^verbatim>\<open>downloadResults\<close> in the dashboard
  and the flow "Fetch from results table, Build CSV: [Index, Value, Is_Anomaly,
  Confidence]" are). Encode writes the header row \<^verbatim>\<open>index,value,is_anomaly,confidence\<close>
  and then one row per sample with the columns index, value, is-anomaly (a boolean) and
  confidence (0 if the sample is not flagged). Samples are numbered as the extraction loop
  numbers the log lines, from 0. A number is written as the field that reads back as that
  number; that the text of a float reads back as the same float is the contract of
  Python's \<^verbatim>\<open>repr\<close> and \<^verbatim>\<open>float\<close>, taken for granted here.
\<close>

text \<open>Modelled from the spec: the confidence column, 0 if the sample is not flagged.\<close>

definition flag_confidence :: "'a extraction_scheme \<Rightarrow> nat \<Rightarrow> pyfloat" where
  "flag_confidence r i =
     (case map_of (zip (anomaly_indices r) (confidence_scores r)) i of
        None \<Rightarrow> Finite 0
      | Some c \<Rightarrow> c)"

text \<open>Modelled from the spec: the header row \<^verbatim>\<open>index,value,is_anomaly,confidence\<close>.\<close>

definition header :: row where
  "header = [Txt ''index'', Txt ''value'', Txt ''is_anomaly'', Txt ''confidence'']"

text \<open>Modelled from the spec: the row of one sample, given with its index.\<close>

definition encode_row :: "result_row \<Rightarrow> nat \<times> pyfloat \<Rightarrow> row" where
  "encode_row r iv =
     [Num (Finite (of_nat (fst iv))),
      Num (snd iv),
      Txt (if fst iv \<in> set (anomaly_indices r) then ''True'' else ''False''),
      Num (flag_confidence r (fst iv))]"

text \<open>Modelled from the spec: Encode, the header followed by one row per sample, in order.\<close>

definition Encode :: "result_row \<Rightarrow> row list" where
  "Encode r = header # map (encode_row r) (enumerate 0 (original_data r))"

text \<open>
  Modelled from the spec: the lookup behind the download request is not among the sources.
  \<open>Get(owner, id)\<close> returns the record with that id, and fails with \<open>NotFound\<close> when
  there is none; a record that belongs to a different owner is reported as \<open>NotFound\<close>
  as well.
\<close>

definition Get :: "nat \<Rightarrow> nat \<Rightarrow> results_table \<Rightarrow> error + result_row" where
  "Get owner i tbl =
     (case find (\<lambda>r. rid r = i) tbl of
        None \<Rightarrow> Inl NotFound
      | Some r \<Rightarrow> if user_id r = owner then Inr r else Inl NotFound)"

subsection \<open>Notions used to state the properties\<close>

text \<open>An enumerated log line is flagged when its confidence exists and exceeds the threshold.\<close>

definition flagged :: "pyfloat \<Rightarrow> nat \<times> line_bytes \<Rightarrow> bool" where
  "flagged threshold il =
     (case confidence (snd il) of None \<Rightarrow> False | Some c \<Rightarrow> float_gt c threshold)"

text \<open>A row that makes the decoding loop raise: it has a second field, and that field is no number.\<close>

definition aborts :: "row \<Rightarrow> bool" where
  "aborts row = (length row > 1 \<and> isl (float_py (row ! 1)))"

text \<open>The sample a row contributes, when it has a second field.\<close>

definition sample :: "row \<Rightarrow> pyfloat" where
  "sample row = projr (float_py (row ! 1))"

text \<open>
  The table after a sequence of upload requests (user, file name, rows, time), each handled
  by \<open>upload_csv\<close>, failed ones included.
\<close>

fun uploads ::
    "scorer \<Rightarrow> (nat \<times> string \<times> row list \<times> nat) list \<Rightarrow> results_table \<Rightarrow> results_table" where
  "uploads rnse_run [] tbl = tbl"
| "uploads rnse_run ((uid, fname, rows, now) # reqs) tbl =
     uploads rnse_run reqs (snd (upload_csv rnse_run uid fname rows now tbl))"

text \<open>
  The numeric samples an upload holds: the second fields that are numbers, over the rows
  after the header that have a second field, in order.
\<close>

fun numeric_samples_of :: "row list \<Rightarrow> pyfloat list" where
  "numeric_samples_of [] = []"
| "numeric_samples_of (r # rs) =
     (if length r > 1
      then (case r ! 1 of
              Num x \<Rightarrow> x # numeric_samples_of rs
            | Txt s \<Rightarrow> numeric_samples_of rs)
      else numeric_samples_of rs)"

definition numeric_samples :: "row list \<Rightarrow> pyfloat list" where
  "numeric_samples rows = numeric_samples_of (drop 1 rows)"

text \<open>
  Extract as the spec words it (4.3), to compare the loop with: going through the indices
  in ascending order, the line at index \<open>i\<close> gets its confidence, and \<open>i\<close> is flagged
  with that confidence iff the confidence exceeds the threshold.
\<close>

definition spec_flags :: "line_bytes list \<Rightarrow> pyfloat \<Rightarrow> (nat \<times> pyfloat) list" where
  "spec_flags lns threshold =
     concat (map (\<lambda>i. case confidence (lns ! i) of
                          None \<Rightarrow> []
                        | Some c \<Rightarrow> if float_gt c threshold then [(i, c)] else [])
                 [0 ..< length lns])"

text \<open>A log line is parseable when the loop body gets as far as a confidence for it.\<close>

definition parseable :: "line_bytes \<Rightarrow> bool" where
  "parseable l = (confidence l \<noteq> None)"

text \<open>
  Concrete inputs: the rows of a CSV with the header \<^verbatim>\<open>timestamp,value\<close> and \<open>n\<close>
  rows \<^verbatim>\<open>i,v\<close>; a log line with a given divergence.
\<close>

definition csv_rows :: "nat \<Rightarrow> real \<Rightarrow> row list" where
  "csv_rows n v =
     [Txt ''timestamp'', Txt ''value'']
       # map (\<lambda>i. [Num (Finite (of_nat i)), Num (Finite v)]) [1 ..< Suc n]"

definition tick :: "real \<Rightarrow> line_bytes" where
  "tick d = Some (JObj [(''t'', JInt 0), (''D'', JFloat (Finite d))])"

text \<open>A scorer that answers three lines whatever \<open>T\<close> is, the second one unparseable.\<close>

definition short_scorer :: scorer where
  "short_scorer seed T p =
     \<lparr>beta = 1, var_tail = 0, digest = [], roots = [],
      lines = [tick (9 / 10), None, tick (1 / 2)]\<rparr>"

section \<open>Properties\<close>

subsection \<open>Floats and the confidence of a line\<close>

lemma clamp_unit:
  "\<exists>x. py_min (Finite 1) (py_max (Finite 0) r) = Finite x \<and> 0 \<le> x \<and> x \<le> 1"
  by (cases r) (auto simp: py_min_def py_max_def float_lt_def)

lemma clamp_finite:
  "py_min (Finite 1) (py_max (Finite 0) (Finite d)) = Finite (min 1 (max 0 d))"
  by (simp add: py_min_def py_max_def float_lt_def min_def max_def)

lemma confidence_tick: "confidence (tick d) = Some (Finite (min 1 (max 0 d)))"
  by (simp add: confidence_def tick_def clamp_finite)

lemma confidence_None: "confidence None = None"
  by (simp add: confidence_def)

text \<open>
  C4. The confidence of a line is its divergence divided by 1.0 and clamped into \<open>[0, 1]\<close>:
  for a finite divergence \<open>d\<close> under the key \<open>D\<close> it is \<open>min 1 (max 0 (d / 1))\<close>, and
  whatever the line holds (an int, a bool, an infinity, NaN, no \<open>D\<close> at all), a confidence
  that exists is a finite number between 0 and 1. On a non-negative divergence the sketch
  of the architecture document gives the same value.
\<close>

theorem confidence_is_clamped_divergence:
  "(map_of kvs ''D'' = Some (JFloat (Finite d)) \<longrightarrow>
      confidence (Some (JObj kvs)) = Some (Finite (min 1 (max 0 (d / 1)))))
   \<and> (confidence l = Some c \<longrightarrow> (\<exists>x. c = Finite x \<and> 0 \<le> x \<and> x \<le> 1))
   \<and> (0 \<le> d \<longrightarrow> architecture_confidence (Finite (d / 1)) = Finite (min 1 (max 0 (d / 1))))"
proof (intro conjI impI)
  assume "map_of kvs ''D'' = Some (JFloat (Finite d))"
  then show "confidence (Some (JObj kvs)) = Some (Finite (min 1 (max 0 (d / 1))))"
    by (simp add: confidence_def clamp_finite)
next
  assume "confidence l = Some c"
  then obtain r where "c = py_min (Finite 1) (py_max (Finite 0) r)"
    by (auto simp: confidence_def split: option.splits)
  then show "\<exists>x. c = Finite x \<and> 0 \<le> x \<and> x \<le> 1"
    using clamp_unit [of r] by simp
next
  assume "0 \<le> d"
  then show "architecture_confidence (Finite (d / 1)) = Finite (min 1 (max 0 (d / 1)))"
    by (simp add: architecture_confidence_def py_min_def float_lt_def min_def max_def)
qed

theorem confidence_is_clamped_divergence_witness:
  "map_of [(''t'', JInt 42), (''D'', JFloat (Finite (65 / 100)))] ''D''
     = Some (JFloat (Finite (65 / 100)))
   \<and> confidence (Some (JObj [(''t'', JInt 42), (''D'', JFloat (Finite (65 / 100)))]))
     = Some (Finite (65 / 100))
   \<and> confidence (Some (JObj [(''D'', JFloat NegInf)])) = Some (Finite 0)
   \<and> (\<exists>x. Finite 0 = Finite x \<and> 0 \<le> x \<and> x \<le> 1)
   \<and> (0::real) \<le> 65 / 100
   \<and> architecture_confidence (Finite (65 / 100)) = Finite (65 / 100)"
proof -
  have c: "confidence (Some (JObj [(''D'', JFloat NegInf)])) = Some (Finite 0)"
    by (simp add: confidence_def py_min_def py_max_def float_lt_def)
  show ?thesis
    using c confidence_is_clamped_divergence
          [of "[(''t'', JInt 42), (''D'', JFloat (Finite (65 / 100)))]" "65 / 100"
              "Some (JObj [(''D'', JFloat NegInf)])" "Finite 0"]
    by simp
qed

subsection \<open>The extraction loop\<close>

lemma extract_step_flagged:
  "flagged thr il \<Longrightarrow>
     extract_step thr il st =
       st\<lparr>anomaly_indices := anomaly_indices st @ [fst il],
          confidence_scores := confidence_scores st @ [the (confidence (snd il))]\<rparr>"
  by (auto simp: extract_step_def flagged_def split: option.splits)

lemma extract_step_unflagged: "\<not> flagged thr il \<Longrightarrow> extract_step thr il st = st"
  by (auto simp: extract_step_def flagged_def split: option.splits)

lemma fold_extract_step:
  "fold (extract_step thr) ils st =
     st\<lparr>anomaly_indices := anomaly_indices st @ map fst (filter (flagged thr) ils),
        confidence_scores :=
          confidence_scores st @ map (\<lambda>il. the (confidence (snd il))) (filter (flagged thr) ils)\<rparr>"
proof (induction ils arbitrary: st)
  case Nil
  then show ?case by simp
next
  case (Cons il ils)
  show ?case
  proof (cases "flagged thr il")
    case True
    then show ?thesis by (simp add: Cons.IH extract_step_flagged)
  next
    case False
    then show ?thesis by (simp add: Cons.IH extract_step_unflagged)
  qed
qed

lemma Extract_eq:
  "Extract lns thr =
     \<lparr>anomaly_indices = map fst (filter (flagged thr) (enumerate 0 lns)),
      confidence_scores =
        map (\<lambda>il. the (confidence (snd il))) (filter (flagged thr) (enumerate 0 lns))\<rparr>"
  by (simp add: Extract_def extract_block_def extract_loop_def fold_extract_step)

lemma anomaly_indices_Extract:
  "anomaly_indices (Extract lns thr) = map fst (filter (flagged thr) (enumerate 0 lns))"
  by (simp add: Extract_eq)

lemma Extract_single:
  "Extract [l] thr =
     (if flagged thr (0, l)
      then \<lparr>anomaly_indices = [0], confidence_scores = [the (confidence l)]\<rparr>
      else \<lparr>anomaly_indices = [], confidence_scores = []\<rparr>)"
  by (simp add: Extract_eq)

lemma Extract_short:
  "Extract [tick (9 / 10), None, tick (1 / 2)] default_threshold
     = \<lparr>anomaly_indices = [0, 2], confidence_scores = [Finite (9 / 10), Finite (1 / 2)]\<rparr>"
  by (simp add: Extract_eq flagged_def confidence_tick confidence_None default_threshold_def)

text \<open>
  C2. An index is among the anomaly indices exactly when its line has a confidence and that
  confidence is strictly greater than the threshold. With the backend's threshold 0.3, a
  line of confidence 0.3 is not flagged and a line of confidence 0.30001 is.
\<close>

theorem flag_iff_confidence_above_threshold:
  "(i \<in> set (anomaly_indices (Extract lns threshold)) \<longleftrightarrow>
      i < length lns \<and> (\<exists>c. confidence (lns ! i) = Some c \<and> float_gt c threshold))
   \<and> float_gt (Finite x) (Finite y) = (y < x)
   \<and> anomaly_indices (Extract [tick (3 / 10)] default_threshold) = []
   \<and> anomaly_indices (Extract [tick (30001 / 100000)] default_threshold) = [0]"
proof (intro conjI)
  have "i \<in> set (anomaly_indices (Extract lns threshold)) \<longleftrightarrow>
          i < length lns \<and> flagged threshold (i, lns ! i)"
    by (force simp: anomaly_indices_Extract in_set_enumerate_eq)
  also have "\<dots> \<longleftrightarrow>
          i < length lns \<and> (\<exists>c. confidence (lns ! i) = Some c \<and> float_gt c threshold)"
    by (simp add: flagged_def split: option.splits)
  finally show "i \<in> set (anomaly_indices (Extract lns threshold)) \<longleftrightarrow>
      i < length lns \<and> (\<exists>c. confidence (lns ! i) = Some c \<and> float_gt c threshold)" .
  show "float_gt (Finite x) (Finite y) = (y < x)"
    by simp
  show "anomaly_indices (Extract [tick (3 / 10)] default_threshold) = []"
    by (simp add: Extract_single flagged_def confidence_tick default_threshold_def)
  show "anomaly_indices (Extract [tick (30001 / 100000)] default_threshold) = [0]"
    by (simp add: Extract_single flagged_def confidence_tick default_threshold_def)
qed

lemma sorted_fst_enumerate: "sorted_wrt (\<lambda>a b. fst a < fst b) (enumerate n xs)"
  by (induction xs arbitrary: n) (auto simp: in_set_enumerate_eq)

lemma sorted_flag_indices: "sorted_wrt (<) (map fst (filter P (enumerate n xs)))"
  by (simp add: sorted_wrt_map sorted_wrt_filter sorted_fst_enumerate)

lemma flagged_confidence:
  "flagged thr il \<Longrightarrow> confidence (snd il) = Some (the (confidence (snd il)))"
  by (auto simp: flagged_def split: option.splits)

text \<open>
  C8. The anomaly indices of an extraction are strictly ascending, hence without
  repetition; the confidence scores are as many as the indices, and the score at position
  \<open>k\<close> is the confidence of the line whose index stands at position \<open>k\<close>.
\<close>

theorem flags_ascending_and_paired:
  "sorted_wrt (<) (anomaly_indices (Extract lns thr))
   \<and> distinct (anomaly_indices (Extract lns thr))
   \<and> length (confidence_scores (Extract lns thr)) = length (anomaly_indices (Extract lns thr))
   \<and> (\<forall>k < length (anomaly_indices (Extract lns thr)).
        confidence (lns ! (anomaly_indices (Extract lns thr) ! k))
          = Some (confidence_scores (Extract lns thr) ! k))"
proof (intro conjI allI impI)
  let ?fl = "filter (flagged thr) (enumerate 0 lns)"
  show asc: "sorted_wrt (<) (anomaly_indices (Extract lns thr))"
    by (simp add: anomaly_indices_Extract sorted_flag_indices)
  show "distinct (anomaly_indices (Extract lns thr))"
    using asc strict_sorted_iff by blast
  show "length (confidence_scores (Extract lns thr)) = length (anomaly_indices (Extract lns thr))"
    by (simp add: Extract_eq)
  fix k
  assume "k < length (anomaly_indices (Extract lns thr))"
  then have k: "k < length ?fl"
    by (simp add: anomaly_indices_Extract)
  then have "?fl ! k \<in> set ?fl"
    by (rule nth_mem)
  then have fl: "flagged thr (?fl ! k)" and en: "?fl ! k \<in> set (enumerate 0 lns)"
    by simp_all
  from en have "lns ! fst (?fl ! k) = snd (?fl ! k)"
    by (simp add: in_set_enumerate_eq)
  with flagged_confidence [OF fl] k
  show "confidence (lns ! (anomaly_indices (Extract lns thr) ! k))
          = Some (confidence_scores (Extract lns thr) ! k)"
    by (simp add: Extract_eq)
qed

theorem flags_ascending_and_paired_witness:
  "anomaly_indices (Extract [tick (9 / 10), None, tick (1 / 2)] default_threshold) = [0, 2]
   \<and> sorted_wrt (<) [0 :: nat, 2]
   \<and> (1 :: nat) < length [0 :: nat, 2]
   \<and> confidence ([tick (9 / 10), None, tick (1 / 2)] ! 2) = Some (Finite (1 / 2))"
proof -
  have "\<forall>k < length [0 :: nat, 2].
          confidence ([tick (9 / 10), None, tick (1 / 2)] ! ([0, 2] ! k))
            = Some ([Finite (9 / 10), Finite (1 / 2)] ! k)"
    using flags_ascending_and_paired [of "[tick (9 / 10), None, tick (1 / 2)]" default_threshold]
    unfolding Extract_short by simp
  then have "(1 :: nat) < length [0 :: nat, 2] \<longrightarrow>
          confidence ([tick (9 / 10), None, tick (1 / 2)] ! ([0, 2] ! 1))
            = Some ([Finite (9 / 10), Finite (1 / 2)] ! 1)"
    by blast
  then show ?thesis
    by (simp add: Extract_short)
qed

lemma reset_lists:
  "(st :: extraction)\<lparr>anomaly_indices := [], confidence_scores := []\<rparr>
     = \<lparr>anomaly_indices = [], confidence_scores = []\<rparr>"
  by (cases st) simp

lemma spec_flags_snoc:
  "spec_flags (lns @ [l]) thr =
     spec_flags lns thr @
       (case confidence l of
          None \<Rightarrow> []
        | Some c \<Rightarrow> if float_gt c thr then [(length lns, c)] else [])"
proof -
  have m: "map (\<lambda>i. case confidence ((lns @ [l]) ! i) of
                     None \<Rightarrow> []
                   | Some c \<Rightarrow> if float_gt c thr then [(i, c)] else []) [0 ..< length lns]
        = map (\<lambda>i. case confidence (lns ! i) of
                     None \<Rightarrow> []
                   | Some c \<Rightarrow> if float_gt c thr then [(i, c)] else []) [0 ..< length lns]"
    by (rule map_cong) (simp_all add: nth_append)
  show ?thesis
    by (simp add: spec_flags_def m)
qed

lemma flagged_enumerate_spec_flags:
  "map (\<lambda>il. (fst il, the (confidence (snd il)))) (filter (flagged thr) (enumerate 0 lns))
     = spec_flags lns thr"
proof (induction lns rule: rev_induct)
  case Nil
  then show ?case by (simp add: spec_flags_def)
next
  case (snoc l lns)
  then show ?case
    by (simp add: enumerate_append_eq spec_flags_snoc flagged_def split: option.splits)
qed

lemma Extract_spec_flags:
  "Extract lns thr =
     \<lparr>anomaly_indices = map fst (spec_flags lns thr),
      confidence_scores = map snd (spec_flags lns thr)\<rparr>"
  unfolding Extract_eq flagged_enumerate_spec_flags [symmetric]
  by (simp add: comp_def)

lemma spec_flags_short:
  "spec_flags [tick (9 / 10), None, tick (1 / 2)] default_threshold
     = [(0, Finite (9 / 10)), (2, Finite (1 / 2))]"
  by (simp add: spec_flags_def upt_rec confidence_tick confidence_None default_threshold_def)

text \<open>
  C9. What the extraction loop leaves in the two lists is a function of the lines and the
  threshold alone, namely the flags the spec describes, in that order and with those
  confidences: this holds whatever the two variables held before the block, so a run
  repeated on the lists just produced gives them again, and it is the value of
  \<open>Extract\<close>. In the handler, the only state outside the request is the results table
  and the clock: a second upload of the same rows, made by any user at any time on the
  table the first upload has left, fails as the first did or answers with the same anomaly
  indices and the same confidence scores.
\<close>

theorem extract_block_independent_of_state:
  "extract_block thr lns st =
     \<lparr>anomaly_indices = map fst (spec_flags lns thr),
      confidence_scores = map snd (spec_flags lns thr)\<rparr>
   \<and> extract_block thr lns st = extract_block thr lns st'
   \<and> extract_block thr lns (extract_block thr lns st) = extract_block thr lns st
   \<and> Extract lns thr = extract_block thr lns st
   \<and> (case fst (upload_csv rnse_run uid fname rows now tbl) of
         Inl e \<Rightarrow>
           fst (upload_csv rnse_run uid' fname' rows now'
                  (snd (upload_csv rnse_run uid fname rows now tbl))) = Inl e
       | Inr a \<Rightarrow>
           (\<exists>b. fst (upload_csv rnse_run uid' fname' rows now'
                        (snd (upload_csv rnse_run uid fname rows now tbl))) = Inr b
                \<and> anomaly_indices b = anomaly_indices a
                \<and> confidence_scores b = confidence_scores a))"
proof (intro conjI)
  have blk: "extract_block thr lns s = Extract lns thr" for s
    by (simp add: extract_block_def Extract_def reset_lists)
  show "extract_block thr lns st =
     \<lparr>anomaly_indices = map fst (spec_flags lns thr),
      confidence_scores = map snd (spec_flags lns thr)\<rparr>"
    by (simp add: blk Extract_spec_flags)
  show "extract_block thr lns st = extract_block thr lns st'"
    by (simp add: blk)
  show "extract_block thr lns (extract_block thr lns st) = extract_block thr lns st"
    by (simp add: blk)
  show "Extract lns thr = extract_block thr lns st"
    by (simp add: blk)
  show "case fst (upload_csv rnse_run uid fname rows now tbl) of
         Inl e \<Rightarrow>
           fst (upload_csv rnse_run uid' fname' rows now'
                  (snd (upload_csv rnse_run uid fname rows now tbl))) = Inl e
       | Inr a \<Rightarrow>
           (\<exists>b. fst (upload_csv rnse_run uid' fname' rows now'
                        (snd (upload_csv rnse_run uid fname rows now tbl))) = Inr b
                \<and> anomaly_indices b = anomaly_indices a
                \<and> confidence_scores b = confidence_scores a)"
    by (cases "Decode rows") (simp_all add: upload_csv_def insert_result_def Let_def)
qed

theorem extract_block_independent_of_state_witness:
  "extract_block default_threshold [tick (9 / 10), None, tick (1 / 2)]
       \<lparr>anomaly_indices = [7], confidence_scores = [NaN]\<rparr>
     = \<lparr>anomaly_indices = [0, 2], confidence_scores = [Finite (9 / 10), Finite (1 / 2)]\<rparr>
   \<and> Extract [tick (9 / 10), None, tick (1 / 2)] default_threshold
     = \<lparr>anomaly_indices = [0, 2], confidence_scores = [Finite (9 / 10), Finite (1 / 2)]\<rparr>"
  using extract_block_independent_of_state
          [of default_threshold "[tick (9 / 10), None, tick (1 / 2)]"
              "\<lparr>anomaly_indices = [7], confidence_scores = [NaN]\<rparr>"]
  unfolding spec_flags_short by simp

subsection \<open>Decoding\<close>

lemma collect_values_eq:
  "collect_values rs acc =
     (if \<exists>r \<in> set rs. aborts r then Inl ValueError
      else Inr (acc @ map sample (filter (\<lambda>r. length r > 1) rs)))"
proof (induction rs acc rule: collect_values.induct)
  case (1 acc)
  then show ?case by simp
next
  case (2 r rest acc)
  show ?case
  proof (cases "length r > 1")
    case False
    with 2 show ?thesis by (simp add: aborts_def)
  next
    case len: True
    show ?thesis
    proof (cases "float_py (r ! 1)")
      case (Inl e)
      with len show ?thesis
        by (cases "r ! 1") (auto simp: aborts_def)
    next
      case (Inr v)
      with len 2 show ?thesis
        by (simp add: aborts_def sample_def)
    qed
  qed
qed

lemma collect_values_csv_rows_aux:
  "collect_values (map (\<lambda>i. [Num (Finite (of_nat i)), Num (Finite v)]) ns) acc
     = Inr (acc @ replicate (length ns) (Finite v))"
  by (induction ns arbitrary: acc) (simp_all add: replicate_app_Cons_same)

lemma collect_values_csv_rows:
  "collect_values (drop 1 (csv_rows n v)) [] = Inr (replicate n (Finite v))"
  by (simp add: csv_rows_def collect_values_csv_rows_aux)

lemma Decode_csv_rows:
  "Decode (csv_rows n v) = (if n < 10 then Inl InsufficientData else Inr (replicate n (Finite v)))"
  unfolding Decode_def collect_values_csv_rows by simp

lemma collect_values_snoc_Txt:
  "collect_values rs acc = Inr vs \<Longrightarrow> collect_values (rs @ [[a, Txt s]]) acc = Inl ValueError"
  by (induction rs acc rule: collect_values.induct) (auto split: sum.splits if_splits)

lemma filter_csv_rows:
  "filter (\<lambda>r. length r > 1) (map (\<lambda>i. [Num (Finite (of_nat i)), Num (Finite v)]) ns)
     = map (\<lambda>i. [Num (Finite (of_nat i)), Num (Finite v)]) ns"
  by (induction ns) simp_all

lemma sample_csv_rows:
  "map (sample \<circ> (\<lambda>i. [Num (Finite (of_nat i)), Num (Finite v)])) ns
     = replicate (length ns) (Finite v)"
  by (induction ns) (simp_all add: sample_def)

text \<open>
  C5, as the claim states it, fails: ten numeric rows decode to ten samples, and the same
  rows followed by one row whose value is the text \<open>n/a\<close> do not decode to those ten
  samples; the decoding is aborted by the ValueError.
\<close>

theorem non_numeric_row_aborts_counterexample:
  "Decode (csv_rows 10 10) = Inr (replicate 10 (Finite 10))
   \<and> Decode (csv_rows 10 10 @ [[Num (Finite 11), Txt ''n/a'']]) = Inl ValueError"
proof
  show "Decode (csv_rows 10 10) = Inr (replicate 10 (Finite 10))"
    by (simp add: Decode_csv_rows)
  have "collect_values (drop 1 (csv_rows 10 10) @ [[Num (Finite 11), Txt ''n/a'']]) []
          = Inl ValueError"
    by (rule collect_values_snoc_Txt) (rule collect_values_csv_rows)
  then show "Decode (csv_rows 10 10 @ [[Num (Finite 11), Txt ''n/a'']]) = Inl ValueError"
    by (simp add: Decode_def csv_rows_def)
qed

text \<open>
  C5, amended. Decode skips the header and every row with fewer than two fields. If some
  remaining row has a second field that is not a number, the whole decoding fails with the
  ValueError, however many valid rows there are. Otherwise it collects the second field of
  each remaining row, in order, and fails with InsufficientData when these are fewer than
  ten.
\<close>

theorem Decode_aborts_or_collects:
  "Decode rows =
     (if \<exists>r \<in> set (drop 1 rows). aborts r then Inl ValueError
      else if length (filter (\<lambda>r. length r > 1) (drop 1 rows)) < 10 then Inl InsufficientData
      else Inr (map sample (filter (\<lambda>r. length r > 1) (drop 1 rows))))"
  by (simp add: Decode_def collect_values_eq)

theorem Decode_aborts_or_collects_witness:
  "Decode (csv_rows 10 10 @ [[Txt ''end'']]) = Inr (replicate 10 (Finite 10))
   \<and> Decode (csv_rows 10 10 @ [[Num (Finite 11), Txt ''n/a''], [Num (Finite 12), Num (Finite 10)]])
       = Inl ValueError
   \<and> Decode (csv_rows 9 10 @ [[Txt ''end'']]) = Inl InsufficientData"
  using Decode_aborts_or_collects [of "csv_rows 10 10 @ [[Txt ''end'']]"]
        Decode_aborts_or_collects
          [of "csv_rows 10 10 @ [[Num (Finite 11), Txt ''n/a''], [Num (Finite 12), Num (Finite 10)]]"]
        Decode_aborts_or_collects [of "csv_rows 9 10 @ [[Txt ''end'']]"]
  by (simp add: csv_rows_def aborts_def filter_csv_rows sample_csv_rows)

lemma numeric_samples_of_no_abort:
  "\<not> (\<exists>r \<in> set rs. aborts r) \<Longrightarrow>
     map sample (filter (\<lambda>r. length r > 1) rs) = numeric_samples_of rs"
proof (induction rs)
  case Nil
  then show ?case by simp
next
  case (Cons r rs)
  then show ?case
    by (cases "r ! 1") (auto simp: aborts_def sample_def)
qed

lemma collect_values_numeric:
  "collect_values rs acc =
     (if \<exists>r \<in> set rs. aborts r then Inl ValueError else Inr (acc @ numeric_samples_of rs))"
proof (cases "\<exists>r \<in> set rs. aborts r")
  case True
  then show ?thesis by (simp add: collect_values_eq)
next
  case False
  then show ?thesis
    using numeric_samples_of_no_abort [OF False] by (simp add: collect_values_eq)
qed

lemma numeric_samples_of_csv:
  "numeric_samples_of (map (\<lambda>i. [Num (Finite (of_nat i)), Num (Finite v)]) ns @ extra)
     = replicate (length ns) (Finite v) @ numeric_samples_of extra"
  by (induction ns) simp_all

lemma numeric_samples_csv_rows_app:
  "numeric_samples (csv_rows n v @ extra) = replicate n (Finite v) @ numeric_samples_of extra"
  by (simp add: numeric_samples_def csv_rows_def numeric_samples_of_csv)

lemma numeric_samples_csv_rows: "numeric_samples (csv_rows n v) = replicate n (Finite v)"
  using numeric_samples_csv_rows_app [of n v "[]"] by simp

lemma aborts_csv_rows_app:
  "(\<exists>r \<in> set (drop 1 (csv_rows n v @ extra)). aborts r) = (\<exists>r \<in> set extra. aborts r)"
  by (auto simp: csv_rows_def aborts_def)

lemma aborts_csv_rows: "(\<exists>r \<in> set (drop 1 (csv_rows n v)). aborts r) = False"
  using aborts_csv_rows_app [of n v "[]"] by simp

text \<open>
  C6, as the claim states it, fails: an upload that holds two numeric samples and one row
  whose value is the text \<open>x\<close> is rejected, but with the ValueError and not with
  InsufficientData; an upload that holds twelve numeric samples and one row whose value is
  the text \<open>n/a\<close> is not accepted.
\<close>

theorem text_value_counterexample:
  "length (numeric_samples (csv_rows 2 10 @ [[Num (Finite 3), Txt ''x'']])) = 2
   \<and> Decode (csv_rows 2 10 @ [[Num (Finite 3), Txt ''x'']]) = Inl ValueError
   \<and> Decode (csv_rows 2 10 @ [[Num (Finite 3), Txt ''x'']]) \<noteq> Inl InsufficientData
   \<and> length (numeric_samples (csv_rows 12 10 @ [[Num (Finite 13), Txt ''n/a'']])) = 12
   \<and> Decode (csv_rows 12 10 @ [[Num (Finite 13), Txt ''n/a'']]) = Inl ValueError"
proof -
  have a: "Decode (csv_rows 2 10 @ [[Num (Finite 3), Txt ''x'']]) = Inl ValueError"
    unfolding Decode_def collect_values_numeric aborts_csv_rows_app by (simp add: aborts_def)
  have b: "Decode (csv_rows 12 10 @ [[Num (Finite 13), Txt ''n/a'']]) = Inl ValueError"
    unfolding Decode_def collect_values_numeric aborts_csv_rows_app by (simp add: aborts_def)
  show ?thesis
    by (simp add: a b numeric_samples_csv_rows_app)
qed

text \<open>
  C6, amended. For an upload in which no row after the header has a non-numeric second
  field, Decode fails with InsufficientData (the HTTP 400 "Need at least 10 data points")
  when the upload holds fewer than ten numeric samples, and returns the samples when it
  holds ten or more. An upload with such a row fails with the ValueError, however many
  numeric samples it holds. Whenever Decode fails, the handler answers with that failure
  and the results table is what it was: no row is inserted; when Decode succeeds exactly
  one row is.
\<close>

theorem minimum_length_rejection:
  "(\<not> (\<exists>r \<in> set (drop 1 rows). aborts r) \<and> length (numeric_samples rows) < 10 \<longrightarrow>
      Decode rows = Inl InsufficientData)
   \<and> (\<not> (\<exists>r \<in> set (drop 1 rows). aborts r) \<and> 10 \<le> length (numeric_samples rows) \<longrightarrow>
      Decode rows = Inr (numeric_samples rows))
   \<and> ((\<exists>r \<in> set (drop 1 rows). aborts r) \<longrightarrow> Decode rows = Inl ValueError)
   \<and> (Decode rows = Inl e \<longrightarrow>
      upload_csv rnse_run uid fname rows now tbl = (Inl e, tbl))
   \<and> (Decode rows = Inr values \<longrightarrow>
      length (snd (upload_csv rnse_run uid fname rows now tbl)) = Suc (length tbl))"
proof (intro conjI impI)
  assume "\<not> (\<exists>r \<in> set (drop 1 rows). aborts r) \<and> length (numeric_samples rows) < 10"
  then show "Decode rows = Inl InsufficientData"
    unfolding Decode_def collect_values_numeric numeric_samples_def by simp
next
  assume "\<not> (\<exists>r \<in> set (drop 1 rows). aborts r) \<and> 10 \<le> length (numeric_samples rows)"
  then show "Decode rows = Inr (numeric_samples rows)"
    unfolding Decode_def collect_values_numeric numeric_samples_def by simp
next
  assume "\<exists>r \<in> set (drop 1 rows). aborts r"
  then show "Decode rows = Inl ValueError"
    unfolding Decode_def collect_values_numeric by simp
next
  assume "Decode rows = Inl e"
  then show "upload_csv rnse_run uid fname rows now tbl = (Inl e, tbl)"
    by (simp add: upload_csv_def)
next
  assume "Decode rows = Inr values"
  then show "length (snd (upload_csv rnse_run uid fname rows now tbl)) = Suc (length tbl)"
    by (simp add: upload_csv_def insert_result_def Let_def)
qed

theorem minimum_length_rejection_witness:
  "\<not> (\<exists>r \<in> set (drop 1 (csv_rows 9 10)). aborts r)
   \<and> length (numeric_samples (csv_rows 9 10)) = 9
   \<and> Decode (csv_rows 9 10) = Inl InsufficientData
   \<and> upload_csv short_scorer 1 ''nine.csv'' (csv_rows 9 10) 0 [] = (Inl InsufficientData, [])
   \<and> \<not> (\<exists>r \<in> set (drop 1 (csv_rows 10 10)). aborts r)
   \<and> length (numeric_samples (csv_rows 10 10)) = 10
   \<and> Decode (csv_rows 10 10) = Inr (replicate 10 (Finite 10))
   \<and> length (snd (upload_csv short_scorer 1 ''ten.csv'' (csv_rows 10 10) 0 [])) = 1
   \<and> (\<exists>r \<in> set (drop 1 (csv_rows 9 10 @ [[Num (Finite 10), Txt ''ten'']])). aborts r)
   \<and> Decode (csv_rows 9 10 @ [[Num (Finite 10), Txt ''ten'']]) = Inl ValueError
   \<and> upload_csv short_scorer 1 ''text.csv'' (csv_rows 9 10 @ [[Num (Finite 10), Txt ''ten'']]) 0 []
       = (Inl ValueError, [])"
  using minimum_length_rejection
          [of "csv_rows 9 10" InsufficientData short_scorer 1 "''nine.csv''" 0 "[]"
              "replicate 10 (Finite 10)"]
        minimum_length_rejection
          [of "csv_rows 10 10" InsufficientData short_scorer 1 "''ten.csv''" 0 "[]"
              "replicate 10 (Finite 10)"]
        minimum_length_rejection
          [of "csv_rows 9 10 @ [[Num (Finite 10), Txt ''ten'']]" ValueError short_scorer 1
              "''text.csv''" 0 "[]" "replicate 10 (Finite 10)"]
  unfolding aborts_csv_rows aborts_csv_rows_app numeric_samples_csv_rows by (simp add: aborts_def)

subsection \<open>The upload handler\<close>

text \<open>
  C1, as the claim states it, fails: for a series of ten samples and a scorer that answers
  three lines of which two parse, the handler raises nothing and answers with the flags of
  the two lines.
\<close>

theorem short_scorer_counterexample:
  "Decode (csv_rows 10 10) = Inr (replicate 10 (Finite 10))
   \<and> length (filter parseable (lines (short_scorer seed64 10 params))) = 2
   \<and> fst (upload_csv short_scorer 1 ''data.csv'' (csv_rows 10 10) 0 [])
       = Inr \<lparr>anomaly_indices = [0, 2],
               confidence_scores = [Finite (9 / 10), Finite (1 / 2)],
               result_id = 1, response_filename = ''data.csv'', anomaly_count = 2\<rparr>"
  by (simp add: Decode_csv_rows upload_csv_def short_scorer_def Extract_short insert_result_def
        next_id_def parseable_def confidence_tick confidence_None)

text \<open>
  C1, amended. For every series that decodes, the handler calls the scorer with the length
  of the series and extracts from the lines it returns, without comparing their number
  with that length: the upload succeeds, the anomaly indices are the positions of the
  flagged lines in the scorer's list (a line that does not parse is passed over and flags
  nothing), and so each index is below the number of lines returned.
\<close>

theorem upload_proceeds_with_returned_lines:
  assumes "Decode rows = Inr values"
  shows "\<exists>resp tbl'.
           upload_csv rnse_run uid fname rows now tbl = (Inr resp, tbl')
           \<and> anomaly_indices resp
               = map fst (filter (flagged default_threshold)
                   (enumerate 0 (lines (rnse_run seed64 (length values) params))))
           \<and> set (anomaly_indices resp)
               \<subseteq> {i. i < length (lines (rnse_run seed64 (length values) params))}"
  using assms
  by (auto simp: upload_csv_def insert_result_def Let_def anomaly_indices_Extract
        in_set_enumerate_eq)

theorem upload_proceeds_with_returned_lines_witness:
  "Decode (csv_rows 12 10) = Inr (replicate 12 (Finite 10))
   \<and> (\<exists>resp tbl'.
           upload_csv short_scorer 7 ''a.csv'' (csv_rows 12 10) 0 [] = (Inr resp, tbl')
           \<and> anomaly_indices resp = [0, 2]
           \<and> set (anomaly_indices resp) \<subseteq> {i. i < 3})"
proof -
  have d: "Decode (csv_rows 12 10) = Inr (replicate 12 (Finite 10))"
    by (simp add: Decode_csv_rows)
  have l: "lines (short_scorer seed64 (length (replicate 12 (Finite (10::real)))) params)
             = [tick (9 / 10), None, tick (1 / 2)]"
    by (simp add: short_scorer_def)
  have f: "map fst (filter (flagged default_threshold)
                      (enumerate 0 [tick (9 / 10), None, tick (1 / 2)])) = [0, 2]"
    by (simp add: flagged_def confidence_tick confidence_None default_threshold_def)
  show ?thesis
    using d upload_proceeds_with_returned_lines [OF d, of short_scorer 7 "''a.csv''" 0 "[]"]
    unfolding l f by (simp add: numeral_3_eq_3)
qed

text \<open>
  C3. The scorer is called with the fixed seed, the number of samples and the fixed
  parameters, never with the samples. Two uploads whose decoded series have the same
  length therefore both succeed with the same anomaly indices and the same confidence
  scores, whatever the samples, the users, the file names and the tables are.
\<close>

theorem flags_depend_on_length_only:
  assumes "Decode rows1 = Inr values1" and "Decode rows2 = Inr values2"
    and "length values1 = length values2"
  shows "\<exists>a b. fst (upload_csv rnse_run uid1 fname1 rows1 now1 tbl1) = Inr a
           \<and> fst (upload_csv rnse_run uid2 fname2 rows2 now2 tbl2) = Inr b
           \<and> anomaly_indices a = anomaly_indices b
           \<and> confidence_scores a = confidence_scores b"
  using assms by (simp add: upload_csv_def insert_result_def Let_def)

theorem flags_depend_on_length_only_witness:
  "Decode (csv_rows 10 10) = Inr (replicate 10 (Finite 10))
   \<and> Decode (csv_rows 10 (31 / 2)) = Inr (replicate 10 (Finite (31 / 2)))
   \<and> (\<exists>a b. fst (upload_csv short_scorer 1 ''flat.csv'' (csv_rows 10 10) 0 []) = Inr a
           \<and> fst (upload_csv short_scorer 2 ''high.csv'' (csv_rows 10 (31 / 2)) 5 []) = Inr b
           \<and> anomaly_indices a = anomaly_indices b
           \<and> confidence_scores a = confidence_scores b)"
proof -
  have d1: "Decode (csv_rows 10 10) = Inr (replicate 10 (Finite 10))"
    by (simp add: Decode_csv_rows)
  have d2: "Decode (csv_rows 10 (31 / 2)) = Inr (replicate 10 (Finite (31 / 2)))"
    by (simp add: Decode_csv_rows)
  have n: "length (replicate 10 (Finite 10)) = length (replicate 10 (Finite (31 / 2)))"
    by simp
  show ?thesis
    using d1 d2
      flags_depend_on_length_only
        [OF d1 d2 n, of short_scorer 1 "''flat.csv''" 0 "[]" 2 "''high.csv''" 5 "[]"]
    by simp
qed

subsection \<open>The results table\<close>

lemma next_id_fresh: "next_id tbl \<notin> rid ` set tbl"
proof
  assume "next_id tbl \<in> rid ` set tbl"
  then have "next_id tbl \<in> set (0 # map rid tbl)"
    by simp
  then have "next_id tbl \<le> Max (set (0 # map rid tbl))"
    by (intro Max_ge) simp_all
  also have "\<dots> = fold max (map rid tbl) 0"
    by (rule Max.set_eq_fold)
  finally show False
    by (simp add: next_id_def)
qed

lemma upload_csv_distinct:
  "distinct (map rid tbl) \<Longrightarrow>
     distinct (map rid (snd (upload_csv rnse_run uid fname rows now tbl)))"
  using next_id_fresh [of tbl]
  by (simp add: upload_csv_def insert_result_def Let_def split: sum.splits)

lemma upload_csv_stores_decoded_series:
  "\<forall>r \<in> set tbl. 10 \<le> length (original_data r) \<Longrightarrow>
     \<forall>r \<in> set (snd (upload_csv rnse_run uid fname rows now tbl)). 10 \<le> length (original_data r)"
  by (auto simp: upload_csv_def insert_result_def Decode_def Let_def split: sum.splits if_splits)

lemma uploads_distinct:
  "distinct (map rid tbl) \<Longrightarrow> distinct (map rid (uploads rnse_run reqs tbl))"
  by (induction rnse_run reqs tbl rule: uploads.induct) (simp_all add: upload_csv_distinct)

lemma uploads_store_decoded_series:
  "\<forall>r \<in> set tbl. 10 \<le> length (original_data r) \<Longrightarrow>
     \<forall>r \<in> set (uploads rnse_run reqs tbl). 10 \<le> length (original_data r)"
proof (induction rnse_run reqs tbl rule: uploads.induct)
  case (1 rnse_run tbl)
  then show ?case by simp
next
  case (2 rnse_run uid fname rows now reqs tbl)
  from upload_csv_stores_decoded_series [OF "2.prems"]
  show ?case by (simp add: "2.IH")
qed

lemma collect_values_encode:
  "collect_values (map (encode_row r) ivs) acc = Inr (acc @ map snd ivs)"
  by (induction ivs arbitrary: acc) (simp_all add: encode_row_def)

lemma Decode_Encode_valid:
  "10 \<le> length (original_data r) \<Longrightarrow> Decode (Encode r) = Inr (original_data r)"
  by (simp add: Decode_def Encode_def collect_values_encode map_snd_enumerate)

text \<open>
  C7. For every row that a sequence of uploads has stored in an initially empty table,
  with or without anomaly flags, decoding the rows that Encode writes for it returns the
  stored series: the same samples in the same order.
\<close>

theorem Decode_Encode:
  assumes "r \<in> set (uploads rnse_run reqs [])"
  shows "Decode (Encode r) = Inr (original_data r)"
proof -
  have "\<forall>r \<in> set (uploads rnse_run reqs []). 10 \<le> length (original_data r)"
    by (rule uploads_store_decoded_series) simp
  with assms have "10 \<le> length (original_data r)"
    by blast
  then show ?thesis
    by (rule Decode_Encode_valid)
qed

lemma uploads_short_scorer:
  "uploads short_scorer [(3, ''flat.csv'', csv_rows 10 10, 0)] []
     = [\<lparr>anomaly_indices = [0, 2], confidence_scores = [Finite (9 / 10), Finite (1 / 2)],
         rid = 1, user_id = 3, filename = ''flat.csv'',
         original_data = replicate 10 (Finite 10), uploaded_at = 0\<rparr>]"
  by (simp add: upload_csv_def Decode_csv_rows short_scorer_def Extract_short insert_result_def
        next_id_def)

theorem Decode_Encode_witness:
  "\<lparr>anomaly_indices = [0, 2], confidence_scores = [Finite (9 / 10), Finite (1 / 2)],
     rid = 1, user_id = 3, filename = ''flat.csv'',
     original_data = replicate 10 (Finite 10), uploaded_at = 0\<rparr>
     \<in> set (uploads short_scorer [(3, ''flat.csv'', csv_rows 10 10, 0)] [])
   \<and> Decode (Encode \<lparr>anomaly_indices = [0, 2],
         confidence_scores = [Finite (9 / 10), Finite (1 / 2)],
         rid = 1, user_id = 3, filename = ''flat.csv'',
         original_data = replicate 10 (Finite 10), uploaded_at = 0\<rparr>)
       = Inr (replicate 10 (Finite 10))"
proof -
  have m: "\<lparr>anomaly_indices = [0, 2], confidence_scores = [Finite (9 / 10), Finite (1 / 2)],
     rid = 1, user_id = 3, filename = ''flat.csv'',
     original_data = replicate 10 (Finite 10), uploaded_at = 0\<rparr>
     \<in> set (uploads short_scorer [(3, ''flat.csv'', csv_rows 10 10, 0)] [])"
    unfolding uploads_short_scorer by simp
  show ?thesis
    using m Decode_Encode [OF m] by simp
qed

lemma find_by_rid:
  "distinct (map rid tbl) \<Longrightarrow> r \<in> set tbl \<Longrightarrow> find (\<lambda>x. rid x = rid r) tbl = Some r"
  by (induction tbl) (auto simp: image_iff)

lemma find_missing: "j \<notin> rid ` set tbl \<Longrightarrow> find (\<lambda>x. rid x = j) tbl = None"
  by (auto simp: find_None_iff)

text \<open>
  C10. In a table whose ids are distinct (uploads keep them so), asking as owner A for the
  id of a record of another owner B fails with NotFound; this is the very answer A gets
  for an id that no record has; and B gets the record.
\<close>

theorem Get_other_owner_NotFound:
  assumes "ownerA \<noteq> ownerB" and "r \<in> set tbl" and "user_id r = ownerB"
    and "distinct (map rid tbl)" and "j \<notin> rid ` set tbl"
  shows "Get ownerA (rid r) tbl = Inl NotFound
         \<and> Get ownerA j tbl = Get ownerA (rid r) tbl
         \<and> Get ownerB (rid r) tbl = Inr r"
  using assms by (simp add: Get_def find_by_rid find_missing)

theorem Get_other_owner_NotFound_witness:
  "(1 :: nat) \<noteq> 2
   \<and> Get 1 5 [\<lparr>anomaly_indices = [], confidence_scores = [], rid = 4, user_id = 1,
                filename = ''mine.csv'', original_data = replicate 10 (Finite 1), uploaded_at = 0\<rparr>,
              \<lparr>anomaly_indices = [3], confidence_scores = [Finite 1], rid = 5, user_id = 2,
                filename = ''theirs.csv'', original_data = replicate 10 (Finite 2), uploaded_at = 1\<rparr>]
       = Inl NotFound
   \<and> Get 1 9 [\<lparr>anomaly_indices = [], confidence_scores = [], rid = 4, user_id = 1,
                filename = ''mine.csv'', original_data = replicate 10 (Finite 1), uploaded_at = 0\<rparr>,
              \<lparr>anomaly_indices = [3], confidence_scores = [Finite 1], rid = 5, user_id = 2,
                filename = ''theirs.csv'', original_data = replicate 10 (Finite 2), uploaded_at = 1\<rparr>]
       = Inl NotFound"
  using Get_other_owner_NotFound
    [of 1 2
        "\<lparr>anomaly_indices = [3], confidence_scores = [Finite 1], rid = 5, user_id = 2,
           filename = ''theirs.csv'', original_data = replicate 10 (Finite 2), uploaded_at = 1\<rparr>"
        "[\<lparr>anomaly_indices = [], confidence_scores = [], rid = 4, user_id = 1,
            filename = ''mine.csv'', original_data = replicate 10 (Finite 1), uploaded_at = 0\<rparr>,
          \<lparr>anomaly_indices = [3], confidence_scores = [Finite 1], rid = 5, user_id = 2,
            filename = ''theirs.csv'', original_data = replicate 10 (Finite 2), uploaded_at = 1\<rparr>]"
        9]
  by simp

end
